theory Spec2Isabelle
  imports Complex_Main "HOL-Library.Char_ord" "HOL-Library.List_Lexorder"
begin

section \<open>Strings: the Python string operations the adapters use\<close>

text \<open>
  Python strings are modelled as \<open>string\<close> (a list of characters); all the inputs
  considered are ASCII. \<open>startswith p s\<close> is \<^verbatim>\<open>s.startswith(p)\<close>.
\<close>

fun startswith :: "string \<Rightarrow> string \<Rightarrow> bool" where
  "startswith [] s = True"
| "startswith (p # ps) [] = False"
| "startswith (p # ps) (c # cs) = (p = c \<and> startswith ps cs)"

text \<open>\<^verbatim>\<open>sub in s\<close>: the substring test.\<close>

fun str_contains :: "string \<Rightarrow> string \<Rightarrow> bool" where
  "str_contains sub [] = (sub = [])"
| "str_contains sub (c # cs) = (startswith sub (c # cs) \<or> str_contains sub cs)"

lemma startswith_length: "startswith p s \<Longrightarrow> length p \<le> length s"
  by (induction p s rule: startswith.induct) auto

text \<open>
  \<^verbatim>\<open>s.replace(old, new)\<close>: every non-overlapping occurrence of \<open>old\<close>, found from
  the left, is replaced. With an empty \<open>old\<close> Python puts \<open>new\<close> before every
  character and at the end.
\<close>

function replace :: "string \<Rightarrow> string \<Rightarrow> string \<Rightarrow> string" where
  "replace old new s =
     (if old = [] then new @ concat (map (\<lambda>c. c # new) s)
      else if startswith old s then new @ replace old new (drop (length old) s)
      else (case s of [] \<Rightarrow> [] | c # cs \<Rightarrow> c # replace old new cs))"
  by pat_completeness auto
termination
proof (relation "measure (\<lambda>(old, new, s). length s)")
  show "wf (measure (\<lambda>(old, new, s). length s))" by simp
next
  fix old new s :: string
  assume "old \<noteq> []" "startswith old s"
  then show "((old, new, drop (length old) s), (old, new, s)) \<in> measure (\<lambda>(old, new, s). length s)"
    using startswith_length [of old s] by (cases old) auto
next
  fix old new s :: string and c cs
  assume "s = c # cs"
  then show "((old, new, cs), (old, new, s)) \<in> measure (\<lambda>(old, new, s). length s)"
    by simp
qed

declare replace.simps [simp del]

text \<open>\<^verbatim>\<open>s.rstrip(chars)\<close> and the first field of \<^verbatim>\<open>s.split(sep)\<close> for a one-character \<open>sep\<close>.\<close>

definition rstrip :: "string \<Rightarrow> string \<Rightarrow> string" where
  "rstrip chars s = rev (dropWhile (\<lambda>c. c \<in> set chars) (rev s))"

definition split_first :: "char \<Rightarrow> string \<Rightarrow> string" where
  "split_first sep s = takeWhile (\<lambda>c. c \<noteq> sep) s"

text \<open>\<^verbatim>\<open>s.lower()\<close> on ASCII letters.\<close>

definition lower_char :: "char \<Rightarrow> char" where
  "lower_char c =
     (case map_of (zip ''ABCDEFGHIJKLMNOPQRSTUVWXYZ'' ''abcdefghijklmnopqrstuvwxyz'') c of
        None \<Rightarrow> c | Some l \<Rightarrow> l)"

definition lower :: "string \<Rightarrow> string" where
  "lower s = map lower_char s"

section \<open>Domain extraction (api/enriched\_company\_api.py, clay\_client.py)\<close>

text \<open>
  \<open>extract_domain_from_url\<close> takes an \<^verbatim>\<open>Optional[str]\<close>; \<^verbatim>\<open>if not url\<close> holds for
  \<^verbatim>\<open>None\<close> and for the empty string.
\<close>

definition extract_domain_from_url :: "string option \<Rightarrow> string" where
  "extract_domain_from_url url =
     (case url of
        None \<Rightarrow> ''''
      | Some u \<Rightarrow>
          if u = [] then ''''
          else
            let domain = replace ''http://www.'' '''' (replace ''https://www.'' '''' u);
                domain = replace ''http://'' '''' (replace ''https://'' '''' domain)
            in rstrip ''/'' domain)"

text \<open>
  The signal dictionary that \<open>ClayClient.extract_domain\<close> reads. \<open>sig_website\<close> is
  \<^verbatim>\<open>signal_data['raw_data']['website']\<close> when \<open>raw_data\<close> is a dictionary that has the
  key, \<open>sig_domain\<close> and \<open>sig_company_name\<close> are the keys \<open>domain\<close> and
  \<open>company_name\<close>; \<open>None\<close> is an absent key.
\<close>

record signal_data =
  sig_website :: "string option"
  sig_domain :: "string option"
  sig_company_name :: "string option"

definition extract_domain :: "signal_data \<Rightarrow> string option" where
  "extract_domain signal_data =
     (case (case sig_website signal_data of
              None \<Rightarrow> None
            | Some website \<Rightarrow>
                if website \<noteq> []
                then Some (split_first (CHR ''/'')
                       (replace ''https://'' '''' (replace ''http://'' '''' (replace ''www.'' '''' website))))
                else None) of
        Some d \<Rightarrow> Some d
      | None \<Rightarrow>
          (case sig_domain signal_data of
             Some d \<Rightarrow> Some d
           | None \<Rightarrow>
               (let company_name = (case sig_company_name signal_data of None \<Rightarrow> '''' | Some n \<Rightarrow> n)
                in if company_name \<noteq> []
                   then Some (replace ''corp'' '''' (replace ''llc'' '''' (replace ''inc'' ''''
                                (replace '' '' '''' (lower company_name)))) @ ''.com'')
                   else None)))"

section \<open>Sink delivery (collectors/breach\_collector.py, clay\_client.py)\<close>

text \<open>
  What the body of the \<^verbatim>\<open>try\<close> block around \<^verbatim>\<open>requests.post\<close> comes to: a response
  with its status code, or an exception (a network error, a timeout, a payload that
  cannot be serialised).
\<close>

datatype http_result = Response int | RequestException

definition send_to_webhook :: "http_result \<Rightarrow> bool" where
  "send_to_webhook r = (case r of Response status_code \<Rightarrow> status_code = 200 | RequestException \<Rightarrow> False)"

definition trigger_webhook :: "http_result \<Rightarrow> bool" where
  "trigger_webhook r = (case r of Response status_code \<Rightarrow> status_code = 200 | RequestException \<Rightarrow> False)"

section \<open>The EDP scorer (scoring/edp\_scorer.py)\<close>

subsection \<open>Data\<close>

text \<open>
  A row of the \<open>pain_signals\<close> table, as far as the scorer and the orchestrator read it.
  \<open>None\<close> is an absent key: \<^verbatim>\<open>s.get('signal_type', '')\<close> then gives the empty string
  and \<^verbatim>\<open>x['signal_date']\<close> raises KeyError. \<open>signal_date\<close> is the stored string, which
  the scorer compares as a string and parses afterwards. \<open>raw_data\<close> holds the integer
  entries of the payload (the scorer reads \<open>days_open\<close> only). The rows come from a query
  by domain, so every row has its \<open>domain\<close>.
\<close>

record signal =
  signal_type :: "string option"
  signal_date :: "string option"
  domain :: string
  raw_data :: "(string \<times> int) list option"

text \<open>A row of the \<open>company_universe\<close> table; \<open>None\<close> is an absent key.\<close>

record company =
  employee_count :: "int option"
  industry :: "string option"

text \<open>
  The datastore client, read side: \<^verbatim>\<open>query_table('pain_signals', {'domain': d})\<close> and
  \<^verbatim>\<open>query_table('company_universe', {'domain': d})\<close>. The store is taken as it is at
  the time of the run; a failing connection is not modelled.
\<close>

record clay_client =
  pain_signals :: "string \<Rightarrow> signal list"
  company_universe :: "string \<Rightarrow> company list"

text \<open>
  The exceptions the scorer can raise: KeyError for a breach signal without
  \<open>signal_date\<close>, ValueError for a date that \<^verbatim>\<open>datetime.fromisoformat\<close> rejects.
  (A date with a time zone parses but cannot be subtracted from the naive
  \<^verbatim>\<open>datetime.now()\<close>; Python raises TypeError there, which the model does not tell
  from ValueError: every caller treats the two alike.)
\<close>

datatype error = KeyError | ValueError

text \<open>
  Time. A naive datetime is an integer number of microseconds; \<open>fromisoformat\<close>, the
  standard library's parser, is a parameter of the model giving \<open>None\<close> where the library
  raises; \<open>now\<close> is the reading of the clock. \<open>timedelta_days\<close> is the \<open>days\<close> field
  of a timedelta, which rounds towards minus infinity. The floating point scores are
  modelled as exact rationals.
\<close>

type_synonym clock = "string \<Rightarrow> int option"

definition timedelta_days :: "int \<Rightarrow> int" where
  "timedelta_days delta = delta div 86400000000"

record tech_stack =
  has_mdr :: bool
  has_siem :: bool
  has_edr :: bool
  has_mssp :: bool

record scores =
  dwell_time :: rat
  skills_gap :: rat
  after_hours :: rat
  insurance :: rat
  breach_cost :: rat

record score_data =
  sd_domain :: string
  pain_score :: rat
  individual_scores :: scores
  primary_edp :: string
  segment :: string
  recommendation :: string

subsection \<open>Lookups\<close>

definition get_signal_type :: "signal \<Rightarrow> string" where
  "get_signal_type s = (case signal_type s of None \<Rightarrow> '''' | Some t \<Rightarrow> t)"

definition get_company_info :: "clay_client \<Rightarrow> string \<Rightarrow> company" where
  "get_company_info clay d =
     (case company_universe clay d of
        [] \<Rightarrow> \<lparr>employee_count = None, industry = None\<rparr>
      | c # _ \<Rightarrow> c)"

definition get_tech_stack :: "string \<Rightarrow> tech_stack" where
  "get_tech_stack d = \<lparr>has_mdr = False, has_siem = False, has_edr = False, has_mssp = False\<rparr>"

definition breach_signals :: "signal list \<Rightarrow> signal list" where
  "breach_signals signals = filter (\<lambda>s. str_contains ''breach'' (get_signal_type s)) signals"

definition vacancy_signals :: "signal list \<Rightarrow> signal list" where
  "vacancy_signals signals = filter (\<lambda>s. str_contains ''vacancy'' (get_signal_type s)) signals"

definition compliance_signals :: "signal list \<Rightarrow> signal list" where
  "compliance_signals signals = filter (\<lambda>s. str_contains ''compliance'' (get_signal_type s)) signals"

text \<open>
  \<^verbatim>\<open>max(breach_signals, key=lambda x: x['signal_date'])\<close>: the keys are read from left to
  right (KeyError at the first signal without one) and compared as strings; of several
  signals with the greatest key the first is returned. On the empty list \<open>max\<close> raises
  ValueError; both callers test the list first.
\<close>

fun max_from :: "signal \<Rightarrow> string \<Rightarrow> signal list \<Rightarrow> error + signal" where
  "max_from best k [] = Inr best"
| "max_from best k (s # ss) =
     (case signal_date s of
        None \<Rightarrow> Inl KeyError
      | Some d \<Rightarrow> if k < d then max_from s d ss else max_from best k ss)"

fun most_recent :: "signal list \<Rightarrow> error + signal" where
  "most_recent [] = Inl ValueError"
| "most_recent (s # ss) =
     (case signal_date s of None \<Rightarrow> Inl KeyError | Some d \<Rightarrow> max_from s d ss)"

text \<open>
  \<^verbatim>\<open>(datetime.now() - datetime.fromisoformat(most_recent['signal_date'])).days\<close> for the
  most recent of a non-empty list of signals.
\<close>

definition days_since :: "clock \<Rightarrow> int \<Rightarrow> signal list \<Rightarrow> error + int" where
  "days_since fromisoformat now bs =
     (case most_recent bs of
        Inl e \<Rightarrow> Inl e
      | Inr m \<Rightarrow>
          (case signal_date m of
             None \<Rightarrow> Inl KeyError
           | Some d \<Rightarrow>
               (case fromisoformat d of
                  None \<Rightarrow> Inl ValueError
                | Some t \<Rightarrow> Inr (timedelta_days (now - t)))))"

subsection \<open>The five sub-scores\<close>

definition calculate_dwell_score :: "clock \<Rightarrow> int \<Rightarrow> string \<Rightarrow> signal list \<Rightarrow> error + rat" where
  "calculate_dwell_score fromisoformat now d signals =
     (case (if breach_signals signals \<noteq> []
            then (case days_since fromisoformat now (breach_signals signals) of
                    Inl e \<Rightarrow> Inl e
                  | Inr days \<Rightarrow>
                      Inr (if days < 30 then 9/10 else if days < 90 then 7/10
                           else if days < 180 then 5/10 else 3/10))
            else Inr 0) of
        Inl e \<Rightarrow> Inl e
      | Inr score0 \<Rightarrow>
          (let tech_stack = get_tech_stack d;
               score1 = (if \<not> has_mdr tech_stack then score0 + 3/10 else score0);
               score2 = (if \<not> has_siem tech_stack then score1 + 2/10 else score1);
               score3 = (if \<not> has_edr tech_stack then score2 + 2/10 else score2);
               score4 = (if vacancy_signals signals \<noteq> [] then score3 + 2/10 else score3)
           in Inr (min score4 1)))"

definition days_open :: "signal \<Rightarrow> int" where
  "days_open vacancy =
     (case raw_data vacancy of
        None \<Rightarrow> 0
      | Some r \<Rightarrow> (case map_of r ''days_open'' of None \<Rightarrow> 0 | Some n \<Rightarrow> n))"

text \<open>The body of the loop over the vacancy signals, and the loop.\<close>

definition vacancy_step :: "rat \<Rightarrow> signal \<Rightarrow> rat" where
  "vacancy_step score vacancy =
     (let score1 = (if days_open vacancy > 90 then score + 4/10
                    else if days_open vacancy > 60 then score + 3/10
                    else if days_open vacancy > 30 then score + 2/10
                    else score)
      in if str_contains ''executive'' (get_signal_type vacancy) then score1 + 2/10 else score1)"

definition calculate_skills_gap_score :: "string \<Rightarrow> signal list \<Rightarrow> rat" where
  "calculate_skills_gap_score d signals = min (foldl vacancy_step 0 (vacancy_signals signals)) 1"

definition calculate_after_hours_score :: "clay_client \<Rightarrow> string \<Rightarrow> signal list \<Rightarrow> rat" where
  "calculate_after_hours_score clay d signals =
     (let score0 = 5/10;
          tech_stack = get_tech_stack d;
          score1 = (if has_mdr tech_stack then score0 - 4/10 else score0);
          score2 = (if has_mssp tech_stack then score1 - 3/10 else score1);
          company = get_company_info clay d;
          score3 = (if industry company \<in> {Some ''healthcare'', Some ''finance'', Some ''critical_infrastructure''}
                    then score2 + 2/10 else score2)
      in max (min score3 1) 0)"

definition calculate_insurance_score :: "clay_client \<Rightarrow> string \<Rightarrow> signal list \<Rightarrow> rat" where
  "calculate_insurance_score clay d signals =
     (let score0 = 0;
          score1 = (if breach_signals signals \<noteq> [] then score0 + 4/10 else score0);
          company = get_company_info clay d;
          score2 = (if industry company \<in> {Some ''healthcare'', Some ''finance''}
                    then score1 + 3/10 else score1);
          score3 = (if compliance_signals signals \<noteq> [] then score2 + 3/10 else score2)
      in min score3 1)"

definition industry_multipliers :: "(string \<times> rat) list" where
  "industry_multipliers =
     [(''healthcare'', 15/10), (''finance'', 13/10), (''retail'', 12/10),
      (''manufacturing'', 11/10), (''technology'', 11/10)]"

definition calculate_breach_cost_score :: "clay_client \<Rightarrow> string \<Rightarrow> signal list \<Rightarrow> rat" where
  "calculate_breach_cost_score clay d signals =
     (let company = get_company_info clay d;
          employees = (case employee_count company of None \<Rightarrow> 100 | Some n \<Rightarrow> n);
          base_score = (if employees > 5000 then 8/10
                        else if employees > 1000 then 6/10
                        else if employees > 500 then 4/10
                        else 3/10);
          multiplier = (case map_of industry_multipliers
                               (case industry company of None \<Rightarrow> '''' | Some i \<Rightarrow> i) of
                          None \<Rightarrow> 1 | Some m \<Rightarrow> m)
      in min (base_score * multiplier) 1)"

subsection \<open>Segment, recommendation, composite\<close>

definition assign_segment :: "clay_client \<Rightarrow> clock \<Rightarrow> int \<Rightarrow> signal list \<Rightarrow> scores \<Rightarrow> error + string" where
  "assign_segment clay fromisoformat now signals scs =
     (case (if breach_signals signals \<noteq> []
            then (case days_since fromisoformat now (breach_signals signals) of
                    Inl e \<Rightarrow> Inl e
                  | Inr days \<Rightarrow> Inr (days < 90))
            else Inr False) of
        Inl e \<Rightarrow> Inl e
      | Inr recent \<Rightarrow>
          Inr (if recent then ''post_breach_survivor''
               else if skills_gap scs > 7/10 then ''skills_gap_sufferer''
               else if insurance scs > 7/10 then ''insurance_pressured''
               else if dwell_time scs > 6/10 then ''resource_constrained''
               else
                 (let company = get_company_info clay (case signals of [] \<Rightarrow> '''' | s # _ \<Rightarrow> domain s)
                  in if (case employee_count company of None \<Rightarrow> 0 | Some n \<Rightarrow> n) < 500
                     then ''overwhelmed_generalist''
                     else ''general_prospect'')))"

definition get_recommendation :: "rat \<Rightarrow> string \<Rightarrow> string" where
  "get_recommendation score seg =
     (if score \<ge> 90 then ''immediate_outreach_priority''
      else if score \<ge> 75 then ''high_priority_outreach''
      else if score \<ge> 60 then ''medium_priority_nurture''
      else if score \<ge> 45 then ''low_priority_monitor''
      else ''not_qualified'')"

text \<open>The weights, in the order of the dictionary.\<close>

definition weights :: scores where
  "weights = \<lparr>dwell_time = 35/100, skills_gap = 25/100, after_hours = 15/100,
              insurance = 15/100, breach_cost = 10/100\<rparr>"

definition score_items :: "scores \<Rightarrow> (string \<times> rat) list" where
  "score_items scs =
     [(''dwell_time'', dwell_time scs), (''skills_gap'', skills_gap scs),
      (''after_hours'', after_hours scs), (''insurance'', insurance scs),
      (''breach_cost'', breach_cost scs)]"

definition weighted_total :: "scores \<Rightarrow> rat" where
  "weighted_total scs =
     dwell_time scs * dwell_time weights + skills_gap scs * skills_gap weights
     + after_hours scs * after_hours weights + insurance scs * insurance weights
     + breach_cost scs * breach_cost weights"

text \<open>\<^verbatim>\<open>max(scores, key=scores.get)\<close>: the first key, in dictionary order, of greatest value.\<close>

fun max_key :: "string \<Rightarrow> rat \<Rightarrow> (string \<times> rat) list \<Rightarrow> string" where
  "max_key best v [] = best"
| "max_key best v ((k, w) # rest) = (if v < w then max_key k w rest else max_key best v rest)"

definition primary_of :: "scores \<Rightarrow> string" where
  "primary_of scs = (case score_items scs of [] \<Rightarrow> '''' | (k, v) # rest \<Rightarrow> max_key k v rest)"

text \<open>
  \<open>calculate_company_score\<close>. The clock is read once for the dwell score and once for
  the segment; the two readings are taken to be the same instant. The \<open>timestamp\<close>
  entry of the result is left out.
\<close>

definition calculate_company_score :: "clay_client \<Rightarrow> clock \<Rightarrow> int \<Rightarrow> string \<Rightarrow> error + score_data" where
  "calculate_company_score clay fromisoformat now d =
     (let signals = pain_signals clay d
      in case calculate_dwell_score fromisoformat now d signals of
           Inl e \<Rightarrow> Inl e
         | Inr dwell \<Rightarrow>
             (let scs = \<lparr>dwell_time = dwell,
                         skills_gap = calculate_skills_gap_score d signals,
                         after_hours = calculate_after_hours_score clay d signals,
                         insurance = calculate_insurance_score clay d signals,
                         breach_cost = calculate_breach_cost_score clay d signals\<rparr>;
                  total_score = weighted_total scs
              in case assign_segment clay fromisoformat now signals scs of
                   Inl e \<Rightarrow> Inl e
                 | Inr seg \<Rightarrow>
                     Inr \<lparr>sd_domain = d,
                          pain_score = total_score * 100,
                          individual_scores = scs,
                          primary_edp = primary_of scs,
                          segment = seg,
                          recommendation = get_recommendation (total_score * 100) seg\<rparr>))"

section \<open>The orchestrator (main.py)\<close>

text \<open>The dictionary that \<open>_process_ransomware_signals\<close> returns on a match.\<close>

record override =
  ov_pain_score :: rat
  ov_primary_edp :: string
  ov_segment :: string
  ov_domain :: string

definition ACTIVE_RANSOMWARE :: string where
  "ACTIVE_RANSOMWARE = ''active_ransomware''"

definition MIN_PAIN_SCORE :: rat where
  "MIN_PAIN_SCORE = 70"

definition ransomware_signals :: "signal list \<Rightarrow> signal list" where
  "ransomware_signals signals = filter (\<lambda>s. signal_type s = Some ACTIVE_RANSOMWARE) signals"

definition process_ransomware_signals :: "string \<Rightarrow> signal list \<Rightarrow> override option" where
  "process_ransomware_signals company_domain signals =
     (if ransomware_signals signals = [] then None
      else Some \<lparr>ov_pain_score = 100, ov_primary_edp = ACTIVE_RANSOMWARE,
                 ov_segment = ''post_breach_survivor'', ov_domain = company_domain\<rparr>)"

text \<open>\<^verbatim>\<open>score_data.update(ransomware_override)\<close>.\<close>

definition update_score :: "score_data \<Rightarrow> override \<Rightarrow> score_data" where
  "update_score sd ov =
     sd\<lparr>pain_score := ov_pain_score ov, primary_edp := ov_primary_edp ov,
        segment := ov_segment ov, sd_domain := ov_domain ov\<rparr>"

text \<open>
  \<open>_score_single_company\<close>: any exception of the base scorer is caught and the company
  gives \<open>None\<close>; so does a score below the threshold. The rows written back to the
  datastore are left out, and with them a write that fails, which the same handler
  turns into \<open>None\<close>.
\<close>

definition score_single_company :: "clay_client \<Rightarrow> clock \<Rightarrow> int \<Rightarrow> string \<Rightarrow> score_data option" where
  "score_single_company clay fromisoformat now company_domain =
     (case calculate_company_score clay fromisoformat now company_domain of
        Inl e \<Rightarrow> None
      | Inr score_data \<Rightarrow>
          (let signals = pain_signals clay company_domain;
               score_data' = (case process_ransomware_signals company_domain signals of
                                None \<Rightarrow> score_data
                              | Some ransomware_override \<Rightarrow> update_score score_data ransomware_override)
           in if pain_score score_data' \<ge> MIN_PAIN_SCORE then Some score_data' else None))"

text \<open>
  \<open>check_urgent_signals\<close>: one prospect for each unprocessed ransomware signal that the
  query returned.
\<close>

record urgent_prospect =
  up_domain :: string
  up_pain_score :: rat
  up_primary_edp :: string
  up_segment :: string
  up_recommendation :: string

definition urgent_prospects :: "signal list \<Rightarrow> urgent_prospect list" where
  "urgent_prospects urgent_companies =
     map (\<lambda>s. \<lparr>up_domain = domain s, up_pain_score = 100, up_primary_edp = ACTIVE_RANSOMWARE,
               up_segment = ''post_breach_survivor'',
               up_recommendation = ''immediate_outreach_critical''\<rparr>) urgent_companies"

section \<open>The breach collector's deduplication (collectors/breach\_collector.py)\<close>

text \<open>
  A breach record as the collectors build it; \<open>other_fields\<close> stands for the entries
  that differ between sources (notice date, affected count, location).
\<close>

record breach =
  company_name :: string
  breach_date :: string
  source :: string
  breach_signal_type :: string
  signal_strength :: rat
  other_fields :: "(string \<times> string) list"

text \<open>
  The file \<open>data/sent_breach_hashes.json\<close>: missing, unreadable (any exception while
  reading gives the empty set), or holding the hashes stored from a Python set. A write
  that fails is caught and leaves the file as it was. \<open>md5\<close> is the hex digest, a
  parameter of the model.
\<close>

datatype sent_file = Missing | Unreadable | Stored "string set"

record ledger =
  sent_data_file :: sent_file
  writable :: bool

definition get_breach_hash :: "(string \<Rightarrow> string) \<Rightarrow> breach \<Rightarrow> string" where
  "get_breach_hash md5 b = md5 (company_name b @ ''|'' @ breach_date b @ ''|'' @ source b)"

definition load_sent_hashes :: "ledger \<Rightarrow> string set" where
  "load_sent_hashes l = (case sent_data_file l of Stored hs \<Rightarrow> hs | Missing \<Rightarrow> {} | Unreadable \<Rightarrow> {})"

definition save_sent_hashes :: "ledger \<Rightarrow> string set \<Rightarrow> ledger" where
  "save_sent_hashes l hashes = (if writable l then l\<lparr>sent_data_file := Stored hashes\<rparr> else l)"

definition filter_new_breaches :: "(string \<Rightarrow> string) \<Rightarrow> ledger \<Rightarrow> breach list \<Rightarrow> breach list" where
  "filter_new_breaches md5 l breaches =
     (if breaches = [] then []
      else (let sent_hashes = load_sent_hashes l
            in filter (\<lambda>b. get_breach_hash md5 b \<notin> sent_hashes) breaches))"

definition mark_breaches_as_sent :: "(string \<Rightarrow> string) \<Rightarrow> ledger \<Rightarrow> breach list \<Rightarrow> ledger" where
  "mark_breaches_as_sent md5 l breaches =
     (if breaches = [] then l
      else save_sent_hashes l
             (foldl (\<lambda>sent_hashes b. insert (get_breach_hash md5 b) sent_hashes)
                    (load_sent_hashes l) breaches))"

text \<open>
  \<open>push_to_clay\<close>: batches of 100, each sent with \<open>send_to_webhook\<close>; \<open>post\<close> gives
  the outcome of the HTTP request for a batch. The method counts the batches that
  succeeded and failed, prints the counts and returns nothing; the model returns the
  counts, and \<open>None\<close> where the method returns before sending.
\<close>

function send_batches :: "(breach list \<Rightarrow> http_result) \<Rightarrow> breach list \<Rightarrow> nat \<times> nat" where
  "send_batches post breaches =
     (if breaches = [] then (0, 0)
      else (let batch = take 100 breaches;
                sent = send_to_webhook (post batch);
                (successful_batches, failed_batches) = send_batches post (drop 100 breaches)
            in if sent then (successful_batches + 1, failed_batches)
               else (successful_batches, failed_batches + 1)))"
  by pat_completeness auto
termination
  by (relation "measure (\<lambda>(post, breaches). length breaches)") auto

declare send_batches.simps [simp del]

definition push_to_clay :: "string option \<Rightarrow> (breach list \<Rightarrow> http_result) \<Rightarrow> breach list \<Rightarrow> (nat \<times> nat) option" where
  "push_to_clay webhook_url post breaches =
     (if webhook_url = None \<or> webhook_url = Some '''' then None
      else if breaches = [] then None
      else Some (send_batches post breaches))"

text \<open>
  \<open>run_collection\<close>, from the collected records on: the new ledger and what
  \<open>push_to_clay\<close> counted (\<open>None\<close> when nothing was pushed).
\<close>

definition run_collection ::
  "(string \<Rightarrow> string) \<Rightarrow> string option \<Rightarrow> (breach list \<Rightarrow> http_result) \<Rightarrow> ledger \<Rightarrow> breach list
     \<Rightarrow> ledger \<times> (nat \<times> nat) option" where
  "run_collection md5 webhook_url post l all_breaches =
     (let new_breaches = filter_new_breaches md5 l all_breaches
      in if new_breaches \<noteq> []
         then (let pushed = push_to_clay webhook_url post new_breaches;
                   l' = mark_breaches_as_sent md5 l new_breaches
               in (l', pushed))
         else (l, None))"

section \<open>Specification-side notions and example data\<close>

text \<open>The specification's reading of an accepted delivery: any status code in the 2xx range.\<close>

definition is_2xx :: "int \<Rightarrow> bool" where
  "is_2xx status_code = (200 \<le> status_code \<and> status_code < 300)"

text \<open>A ransomware signal as the threat monitor stores it, with the victim's website only.\<close>

definition website_signal :: "string \<Rightarrow> signal_data" where
  "website_signal w = \<lparr>sig_website = Some w, sig_domain = None, sig_company_name = None\<rparr>"

text \<open>
  Two breach records of the same event (same company, date and source) whose other
  entries differ, an empty ledger, and a stand-in for the digest.
\<close>

definition acme_breach :: breach where
  "acme_breach = \<lparr>company_name = ''Acme Corp'', breach_date = ''2026-10-25T00:00:00'',
                   source = ''california_ag'', breach_signal_type = ''post_breach'',
                   signal_strength = 1, other_fields = [(''notice_date'', ''2026-10-30T00:00:00'')]\<rparr>"

definition acme_breach_enriched :: breach where
  "acme_breach_enriched = acme_breach\<lparr>signal_strength := 8/10,
                             other_fields := [(''notice_date'', ''2026-10-30T00:00:00''), (''location'', ''CA'')]\<rparr>"

definition empty_ledger :: ledger where
  "empty_ledger = \<lparr>sent_data_file = Missing, writable = True\<rparr>"

definition plain_digest :: "string \<Rightarrow> string" where
  "plain_digest s = s"

text \<open>
  Example signals and stores. \<open>iso_clock\<close> stands for \<open>fromisoformat\<close> on the date
  strings of the examples (microseconds from 2026-10-25 09:00:00) and rejects every
  other string, among them \<open>n/a\<close>; \<open>nov_4\<close> is 2026-11-04 10:00:00, ten days and
  one hour later.
\<close>

definition day :: int where
  "day = 86400000000"

definition iso_clock :: clock where
  "iso_clock = map_of [(''2026-10-25T09:00:00'', 0), (''2026-07-17T09:00:00'', - 100 * day)]"

definition nov_4 :: int where
  "nov_4 = 10 * day + 3600000000"

definition ransomware_signal :: signal where
  "ransomware_signal = \<lparr>signal_type = Some ''active_ransomware'', signal_date = Some ''2026-10-25T09:00:00'',
                         domain = ''acme.com'', raw_data = None\<rparr>"

definition recent_breach :: signal where
  "recent_breach = \<lparr>signal_type = Some ''post_breach'', signal_date = Some ''2026-10-25T09:00:00'',
                     domain = ''acme.com'', raw_data = None\<rparr>"

definition old_breach :: signal where
  "old_breach = \<lparr>signal_type = Some ''post_breach'', signal_date = Some ''2026-07-17T09:00:00'',
                  domain = ''acme.com'', raw_data = None\<rparr>"

definition undated_breach :: signal where
  "undated_breach = \<lparr>signal_type = Some ''healthcare_breach'', signal_date = Some ''n/a'',
                      domain = ''acme.com'', raw_data = None\<rparr>"

definition long_vacancy :: signal where
  "long_vacancy = \<lparr>signal_type = Some ''executive_vacancy_critical'', signal_date = Some ''2026-10-25T09:00:00'',
                    domain = ''acme.com'', raw_data = Some [(''days_open'', 120)]\<rparr>"

text \<open>A store with the given signals for \<open>acme.com\<close> and the given rows of the company table.\<close>

definition acme_store :: "signal list \<Rightarrow> company list \<Rightarrow> clay_client" where
  "acme_store signals companies =
     \<lparr>pain_signals = (\<lambda>d. if d = ''acme.com'' then signals else []),
      company_universe = (\<lambda>d. if d = ''acme.com'' then companies else [])\<rparr>"

definition small_retailer :: company where
  "small_retailer = \<lparr>employee_count = Some 50, industry = Some ''retail''\<rparr>"

definition zero_scores :: scores where
  "zero_scores = \<lparr>dwell_time = 0, skills_gap = 0, after_hours = 0, insurance = 0, breach_cost = 0\<rparr>"

text \<open>
  The specification's decision list of the segment resolver, on the three things it is
  said to read: whether some breach-type signal is dated within 90 days, the sub-scores
  and the company size.
\<close>

definition age_days :: "clock \<Rightarrow> int \<Rightarrow> signal \<Rightarrow> int option" where
  "age_days fromisoformat now s =
     (case signal_date s of
        None \<Rightarrow> None
      | Some d \<Rightarrow> (case fromisoformat d of None \<Rightarrow> None | Some t \<Rightarrow> Some (timedelta_days (now - t))))"

definition breach_within :: "clock \<Rightarrow> int \<Rightarrow> int \<Rightarrow> signal list \<Rightarrow> bool" where
  "breach_within fromisoformat now n signals =
     list_ex (\<lambda>s. case age_days fromisoformat now s of None \<Rightarrow> False | Some a \<Rightarrow> a < n)
       (breach_signals signals)"

definition resolve :: "bool \<Rightarrow> scores \<Rightarrow> int \<Rightarrow> string" where
  "resolve recent scs employees =
     (if recent then ''post_breach_survivor''
      else if skills_gap scs > 7/10 then ''skills_gap_sufferer''
      else if insurance scs > 7/10 then ''insurance_pressured''
      else if dwell_time scs > 6/10 then ''resource_constrained''
      else if employees < 500 then ''overwhelmed_generalist''
      else ''general_prospect'')"

text \<open>
  Chronological signals: every signal has a date that parses, and the order of the date
  strings is the order of the instants they denote (as for ISO timestamps of one format).
\<close>

definition agrees :: "clock \<Rightarrow> signal \<Rightarrow> signal \<Rightarrow> bool" where
  "agrees fromisoformat s s' =
     (case (signal_date s, signal_date s') of
        (Some d, Some d') \<Rightarrow>
          (case (fromisoformat d, fromisoformat d') of
             (Some t, Some t') \<Rightarrow> d \<le> d' \<longrightarrow> t \<le> t'
           | _ \<Rightarrow> False)
      | _ \<Rightarrow> False)"

definition chronological :: "clock \<Rightarrow> signal list \<Rightarrow> bool" where
  "chronological fromisoformat bs = list_all (\<lambda>s. list_all (agrees fromisoformat s) bs) bs"

definition hospital :: company where
  "hospital = \<lparr>employee_count = None, industry = Some ''healthcare''\<rparr>"

definition acme_result :: score_data where
  "acme_result =
     \<lparr>sd_domain = ''acme.com'', pain_score = 671 / 10,
      individual_scores = \<lparr>dwell_time = 1, skills_gap = 3 / 5, after_hours = 1 / 2,
                            insurance = 2 / 5, breach_cost = 9 / 25\<rparr>,
      primary_edp = ''dwell_time'', segment = ''post_breach_survivor'',
      recommendation = ''medium_priority_nurture''\<rparr>"

section \<open>Sink delivery\<close>

text \<open>
  C8, as the code has it: a delivery attempt is reported as accepted exactly when the POST
  returns status code 200. Every other status code, the other 2xx codes included, and
  every exception is reported as a failure. This holds for \<open>send_to_webhook\<close> of the
  breach collector and for \<open>trigger_webhook\<close> of the datastore client.
\<close>

theorem delivery_accepted_iff_200:
  "(send_to_webhook r \<longleftrightarrow> r = Response 200) \<and> (trigger_webhook r \<longleftrightarrow> r = Response 200)"
  by (cases r) (simp_all add: send_to_webhook_def trigger_webhook_def)

theorem delivery_accepted_iff_200_witness:
  "send_to_webhook (Response 200) \<and> trigger_webhook (Response 200)
   \<and> \<not> send_to_webhook (Response 404) \<and> \<not> trigger_webhook RequestException"
  using delivery_accepted_iff_200 [of "Response 200"] delivery_accepted_iff_200 [of "Response 404"]
    delivery_accepted_iff_200 [of RequestException]
  by simp

text \<open>
  C8 as stated fails: 201 (Created) is a 2xx status code, and both senders report the
  delivery as failed.
\<close>

theorem delivery_2xx_counterexample:
  "is_2xx 201 \<and> \<not> send_to_webhook (Response 201) \<and> \<not> trigger_webhook (Response 201)"
  by (simp add: is_2xx_def send_to_webhook_def trigger_webhook_def)

section \<open>Domain extraction\<close>

text \<open>Deleting occurrences of a string, stripping and splitting never bring in a new character.\<close>

lemma set_replace_gen: "new = [] \<Longrightarrow> set (replace old new s) \<subseteq> set s"
proof (induction old new s rule: replace.induct)
  case (1 old new s)
  show ?case
  proof (cases "old = []")
    case True
    with "1.prems" show ?thesis by (subst replace.simps) auto
  next
    case False
    show ?thesis
    proof (cases "startswith old s")
      case True
      with False "1.IH"(1) "1.prems"
      have "set (replace old new (drop (length old) s)) \<subseteq> set (drop (length old) s)"
        by simp
      moreover have "set (drop (length old) s) \<subseteq> set s" by (rule set_drop_subset)
      ultimately show ?thesis using False True "1.prems" by (subst replace.simps) auto
    next
      case nsw: False
      show ?thesis
      proof (cases s)
        case Nil
        with False nsw show ?thesis by (subst replace.simps) simp
      next
        case (Cons c cs)
        with False nsw "1.IH"(2) "1.prems" have "set (replace old new cs) \<subseteq> set cs" by simp
        with False nsw Cons show ?thesis by (subst replace.simps) auto
      qed
    qed
  qed
qed

lemma set_replace_delete: "set (replace old [] s) \<subseteq> set s"
  by (rule set_replace_gen) simp

lemma set_rstrip: "set (rstrip chars s) \<subseteq> set s"
  using set_dropWhileD [of _ "\<lambda>c. c \<in> set chars" "rev s"] by (auto simp: rstrip_def)

lemma set_split_first: "set (split_first sep s) \<subseteq> set s"
  using set_takeWhileD [of _ "\<lambda>c. c \<noteq> sep" s] by (auto simp: split_first_def)

lemma extract_domain_from_url_chars: "set (extract_domain_from_url (Some u)) \<subseteq> set u"
proof -
  have "set (rstrip ''/'' (replace ''http://'' '''' (replace ''https://'' ''''
          (replace ''http://www.'' '''' (replace ''https://www.'' '''' u))))) \<subseteq> set u"
    using set_rstrip set_replace_delete by (meson subset_trans)
  then show ?thesis
    by (simp add: extract_domain_from_url_def Let_def)
qed

lemma extract_domain_chars:
  "set (case extract_domain (website_signal w) of None \<Rightarrow> [] | Some d \<Rightarrow> d) \<subseteq> set w"
proof -
  have "set (split_first (CHR ''/'')
          (replace ''https://'' '''' (replace ''http://'' '''' (replace ''www.'' '''' w)))) \<subseteq> set w"
    using set_split_first set_replace_delete by (meson subset_trans)
  then show ?thesis
    by (simp add: extract_domain_def website_signal_def)
qed

text \<open>
  C7, as the code has it: \<open>extract_domain_from_url\<close>, and \<open>extract_domain\<close> on the
  website of a signal, map \<open>https://www.Example.com/\<close> to \<open>Example.com\<close> and each of
  \<open>example.com\<close> and \<open>http://example.com\<close> to \<open>example.com\<close>; so the first input
  does not get the key of the other two. Neither extractor lowercases a URL: on every
  URL, each character of the result is a character of the URL.
\<close>

theorem domain_extraction_keeps_case:
  "extract_domain_from_url (Some ''https://www.Example.com/'') = ''Example.com''
   \<and> extract_domain_from_url (Some ''example.com'') = ''example.com''
   \<and> extract_domain_from_url (Some ''http://example.com'') = ''example.com''
   \<and> extract_domain (website_signal ''https://www.Example.com/'') = Some ''Example.com''
   \<and> extract_domain (website_signal ''example.com'') = Some ''example.com''
   \<and> extract_domain (website_signal ''http://example.com'') = Some ''example.com''
   \<and> set (extract_domain_from_url (Some u)) \<subseteq> set u
   \<and> set (case extract_domain (website_signal w) of None \<Rightarrow> [] | Some d \<Rightarrow> d) \<subseteq> set w"
proof -
  have "extract_domain_from_url (Some ''https://www.Example.com/'') = ''Example.com''
   \<and> extract_domain_from_url (Some ''example.com'') = ''example.com''
   \<and> extract_domain_from_url (Some ''http://example.com'') = ''example.com''
   \<and> extract_domain (website_signal ''https://www.Example.com/'') = Some ''Example.com''
   \<and> extract_domain (website_signal ''example.com'') = Some ''example.com''
   \<and> extract_domain (website_signal ''http://example.com'') = Some ''example.com''"
    by (simp add: extract_domain_from_url_def extract_domain_def website_signal_def
        replace.simps rstrip_def split_first_def)
  with extract_domain_from_url_chars [of u] extract_domain_chars [of w] show ?thesis
    by blast
qed

text \<open>
  C7 as stated fails: the first input is not mapped to the key \<open>example.com\<close> of the
  other two, by either extractor.
\<close>

theorem domain_canonical_counterexample:
  "extract_domain_from_url (Some ''https://www.Example.com/'') \<noteq> ''example.com''
   \<and> extract_domain_from_url (Some ''https://www.Example.com/'')
       \<noteq> extract_domain_from_url (Some ''example.com'')
   \<and> extract_domain (website_signal ''https://www.Example.com/'') \<noteq> Some ''example.com''"
  by (simp add: extract_domain_from_url_def extract_domain_def website_signal_def
      replace.simps rstrip_def split_first_def)

section \<open>Deduplication and the collection run\<close>

lemma foldl_insert_hashes:
  "foldl (\<lambda>sent_hashes b. insert (f b) sent_hashes) A bs = A \<union> f ` set bs"
  by (induction bs arbitrary: A) auto

lemma load_after_mark:
  "writable l \<Longrightarrow>
   load_sent_hashes (mark_breaches_as_sent md5 l bs) = load_sent_hashes l \<union> get_breach_hash md5 ` set bs"
  by (auto simp: mark_breaches_as_sent_def save_sent_hashes_def load_sent_hashes_def
      foldl_insert_hashes split: sent_file.splits)

lemma run_collection_ledger:
  "fst (run_collection md5 url post l bs) = mark_breaches_as_sent md5 l (filter_new_breaches md5 l bs)"
  by (simp add: run_collection_def Let_def mark_breaches_as_sent_def)

text \<open>
  C6: the key is a function of company name, breach date and source only. When a record
  is submitted, the records classified as new are committed, and a record of the same
  key (its other entries may differ) is submitted again, the second submission is
  classified as a duplicate; the two submissions give one \<open>new\<close> classification
  (none if the key was in the ledger before), the ledger is the old one with the one
  hash of the key added, and a collection run on the second record changes nothing.
  The commit is performed, that is, the ledger file can be written.
\<close>

theorem dedup_idempotent:
  assumes same: "company_name b2 = company_name b1" "breach_date b2 = breach_date b1" "source b2 = source b1"
    and w: "writable l"
  shows "get_breach_hash md5 b2 = get_breach_hash md5 b1
    \<and> filter_new_breaches md5 l [b1] = (if get_breach_hash md5 b1 \<in> load_sent_hashes l then [] else [b1])
    \<and> filter_new_breaches md5 (mark_breaches_as_sent md5 l (filter_new_breaches md5 l [b1])) [b2] = []
    \<and> length (filter_new_breaches md5 l [b1])
        + length (filter_new_breaches md5 (mark_breaches_as_sent md5 l (filter_new_breaches md5 l [b1])) [b2])
        = (if get_breach_hash md5 b1 \<in> load_sent_hashes l then 0 else 1)
    \<and> load_sent_hashes (mark_breaches_as_sent md5 l (filter_new_breaches md5 l [b1]))
        = insert (get_breach_hash md5 b1) (load_sent_hashes l)
    \<and> run_collection md5 url post (mark_breaches_as_sent md5 l (filter_new_breaches md5 l [b1])) [b2]
        = (mark_breaches_as_sent md5 l (filter_new_breaches md5 l [b1]), None)"
proof -
  let ?l' = "mark_breaches_as_sent md5 l (filter_new_breaches md5 l [b1])"
  have h: "get_breach_hash md5 b2 = get_breach_hash md5 b1"
    using same by (simp add: get_breach_hash_def)
  have f1: "filter_new_breaches md5 l [b1] = (if get_breach_hash md5 b1 \<in> load_sent_hashes l then [] else [b1])"
    by (simp add: filter_new_breaches_def)
  have ld: "load_sent_hashes ?l' = insert (get_breach_hash md5 b1) (load_sent_hashes l)"
    using load_after_mark [OF w, of md5 "filter_new_breaches md5 l [b1]"]
    by (auto simp: f1)
  have f2: "filter_new_breaches md5 ?l' [b2] = []"
    by (simp add: filter_new_breaches_def [of md5 ?l'] ld h)
  have n: "length (filter_new_breaches md5 l [b1]) + length (filter_new_breaches md5 ?l' [b2])
        = (if get_breach_hash md5 b1 \<in> load_sent_hashes l then 0 else 1)"
    by (simp add: f2) (simp add: f1)
  have r: "run_collection md5 url post ?l' [b2] = (?l', None)"
    by (simp add: run_collection_def f2)
  from h f1 f2 n ld r show ?thesis by blast
qed

theorem dedup_idempotent_witness:
  "acme_breach_enriched \<noteq> acme_breach
   \<and> filter_new_breaches plain_digest empty_ledger [acme_breach] = [acme_breach]
   \<and> filter_new_breaches plain_digest
        (mark_breaches_as_sent plain_digest empty_ledger (filter_new_breaches plain_digest empty_ledger [acme_breach]))
        [acme_breach_enriched] = []
   \<and> length (filter_new_breaches plain_digest empty_ledger [acme_breach])
       + length (filter_new_breaches plain_digest
          (mark_breaches_as_sent plain_digest empty_ledger (filter_new_breaches plain_digest empty_ledger [acme_breach]))
          [acme_breach_enriched]) = 1
   \<and> load_sent_hashes
        (mark_breaches_as_sent plain_digest empty_ledger (filter_new_breaches plain_digest empty_ledger [acme_breach]))
       = {''Acme Corp|2026-10-25T00:00:00|california_ag''}"
  using dedup_idempotent [of acme_breach_enriched acme_breach empty_ledger plain_digest None "\<lambda>batch. Response 200"]
  by (simp add: acme_breach_def acme_breach_enriched_def empty_ledger_def plain_digest_def
      filter_new_breaches_def mark_breaches_as_sent_def save_sent_hashes_def
      load_sent_hashes_def get_breach_hash_def)

text \<open>
  C2 at a failing input: the webhook answers 500 to the only batch of a run, so
  \<open>push_to_clay\<close> counts no successful and one failed batch; the run stores the
  record's hash all the same, and the next run classifies the record as a duplicate.
  The same happens when the request raises, and when no webhook is configured.
\<close>

theorem failed_delivery_marked_sent:
  "run_collection plain_digest (Some ''https://hooks.example/clay'') (\<lambda>batch. Response 500)
       empty_ledger [acme_breach]
     = (\<lparr>sent_data_file = Stored {''Acme Corp|2026-10-25T00:00:00|california_ag''}, writable = True\<rparr>,
        Some (0, 1))
   \<and> run_collection plain_digest (Some ''https://hooks.example/clay'') (\<lambda>batch. RequestException)
       empty_ledger [acme_breach]
     = (\<lparr>sent_data_file = Stored {''Acme Corp|2026-10-25T00:00:00|california_ag''}, writable = True\<rparr>,
        Some (0, 1))
   \<and> run_collection plain_digest None (\<lambda>batch. Response 200) empty_ledger [acme_breach]
     = (\<lparr>sent_data_file = Stored {''Acme Corp|2026-10-25T00:00:00|california_ag''}, writable = True\<rparr>,
        None)
   \<and> filter_new_breaches plain_digest
        \<lparr>sent_data_file = Stored {''Acme Corp|2026-10-25T00:00:00|california_ag''}, writable = True\<rparr>
        [acme_breach] = []"
  by (simp add: run_collection_def filter_new_breaches_def mark_breaches_as_sent_def
      save_sent_hashes_def load_sent_hashes_def push_to_clay_def send_batches.simps
      send_to_webhook_def get_breach_hash_def acme_breach_def empty_ledger_def plain_digest_def)

text \<open>
  In general the ledger after a run does not depend on the outcome of the delivery:
  every collected record is in it.
\<close>

lemma run_collection_marks_all:
  assumes "writable l" and "b \<in> set all_breaches"
  shows "get_breach_hash md5 b \<in> load_sent_hashes (fst (run_collection md5 url post l all_breaches))"
proof -
  have "load_sent_hashes (fst (run_collection md5 url post l all_breaches))
          = load_sent_hashes l \<union> get_breach_hash md5 ` set (filter_new_breaches md5 l all_breaches)"
    by (simp add: run_collection_ledger load_after_mark [OF assms(1)])
  then show ?thesis using assms(2)
    by (auto simp: filter_new_breaches_def)
qed

section \<open>Evaluating the scorer\<close>

lemmas scorer_defs =
  calculate_company_score_def calculate_dwell_score_def calculate_skills_gap_score_def
  calculate_after_hours_score_def calculate_insurance_score_def calculate_breach_cost_score_def
  assign_segment_def days_since_def breach_signals_def vacancy_signals_def compliance_signals_def
  get_signal_type_def get_company_info_def get_tech_stack_def get_recommendation_def
  weighted_total_def weights_def primary_of_def score_items_def industry_multipliers_def
  vacancy_step_def days_open_def timedelta_days_def Let_def

lemmas example_defs =
  acme_store_def ransomware_signal_def recent_breach_def old_breach_def undated_breach_def
  long_vacancy_def small_retailer_def hospital_def zero_scores_def iso_clock_def nov_4_def day_def

text \<open>The scorer on the example stores.\<close>

lemma acme_scored:
  "calculate_company_score (acme_store [recent_breach, long_vacancy, old_breach] [small_retailer])
     iso_clock nov_4 ''acme.com''
   = Inr acme_result"
  by (simp add: scorer_defs example_defs acme_result_def)

lemma ransomware_only_scored:
  "calculate_company_score (acme_store [ransomware_signal] [small_retailer]) iso_clock nov_4 ''acme.com''
   = Inr \<lparr>sd_domain = ''acme.com'', pain_score = 178 / 5,
          individual_scores = \<lparr>dwell_time = 7 / 10, skills_gap = 0, after_hours = 1 / 2,
                                insurance = 0, breach_cost = 9 / 25\<rparr>,
          primary_edp = ''dwell_time'', segment = ''resource_constrained'',
          recommendation = ''not_qualified''\<rparr>"
  by (simp add: scorer_defs example_defs)

lemma unparsed_date_raises:
  "calculate_company_score (acme_store [ransomware_signal, undated_breach] [small_retailer])
     iso_clock nov_4 ''acme.com'' = Inl ValueError"
  by (simp add: scorer_defs example_defs)

text \<open>
  When the base scorer returns and the company has a ransomware signal, the orchestrator
  returns the record with the override applied.
\<close>

lemma override_applied:
  assumes "calculate_company_score clay f now d = Inr sd"
    and "ransomware_signals (pain_signals clay d) \<noteq> []"
  shows "score_single_company clay f now d
    = Some (sd\<lparr>pain_score := 100, primary_edp := ACTIVE_RANSOMWARE,
               segment := ''post_breach_survivor'', sd_domain := d\<rparr>)"
  using assms
  by (simp add: score_single_company_def process_ransomware_signals_def update_score_def
      MIN_PAIN_SCORE_def)

lemma scorer_error_gives_none:
  "calculate_company_score clay f now d = Inl e \<Longrightarrow> score_single_company clay f now d = None"
  by (simp add: score_single_company_def)

section \<open>The most recent breach signal\<close>

lemma max_from_greatest:
  assumes "\<forall>s\<in>set ss. signal_date s \<noteq> None" and "signal_date best = Some k"
  shows "\<exists>m dm. max_from best k ss = Inr m \<and> m \<in> set (best # ss) \<and> signal_date m = Some dm
           \<and> k \<le> dm \<and> (\<forall>s\<in>set ss. \<forall>d. signal_date s = Some d \<longrightarrow> d \<le> dm)"
  using assms
proof (induction ss arbitrary: best k)
  case Nil
  then show ?case by simp
next
  case (Cons s ss)
  from Cons.prems obtain d where d: "signal_date s = Some d" by auto
  show ?case
  proof (cases "k < d")
    case True
    from Cons.IH [of s d] Cons.prems d
    obtain m dm where m: "max_from s d ss = Inr m" "m \<in> set (s # ss)" "signal_date m = Some dm"
      "d \<le> dm" "\<forall>s\<in>set ss. \<forall>d. signal_date s = Some d \<longrightarrow> d \<le> dm"
      by auto
    with True d show ?thesis by auto
  next
    case False
    from Cons.IH [of best k] Cons.prems
    obtain m dm where m: "max_from best k ss = Inr m" "m \<in> set (best # ss)" "signal_date m = Some dm"
      "k \<le> dm" "\<forall>s\<in>set ss. \<forall>d. signal_date s = Some d \<longrightarrow> d \<le> dm"
      by auto
    with False d show ?thesis by auto
  qed
qed

lemma most_recent_greatest:
  assumes "bs \<noteq> []" and "\<forall>s\<in>set bs. signal_date s \<noteq> None"
  shows "\<exists>m dm. most_recent bs = Inr m \<and> m \<in> set bs \<and> signal_date m = Some dm
           \<and> (\<forall>s\<in>set bs. \<forall>d. signal_date s = Some d \<longrightarrow> d \<le> dm)"
proof (cases bs)
  case Nil
  with assms show ?thesis by simp
next
  case (Cons b rest)
  with assms obtain k where k: "signal_date b = Some k" by auto
  from max_from_greatest [of rest b k] assms Cons k
  obtain m dm where "max_from b k rest = Inr m" "m \<in> set (b # rest)" "signal_date m = Some dm"
    "k \<le> dm" "\<forall>s\<in>set rest. \<forall>d. signal_date s = Some d \<longrightarrow> d \<le> dm"
    by auto
  with Cons k show ?thesis by auto
qed

lemma chronological_dated:
  assumes "chronological f bs" and "s \<in> set bs"
  shows "\<exists>d t. signal_date s = Some d \<and> f d = Some t"
proof -
  from assms have "agrees f s s"
    by (simp add: chronological_def list_all_iff)
  then show ?thesis
    by (auto simp: agrees_def split: option.splits)
qed

lemma chronological_mono:
  assumes "chronological f bs" and "s \<in> set bs" and "s' \<in> set bs"
    and "signal_date s = Some d" and "signal_date s' = Some d'"
    and "f d = Some t" and "f d' = Some t'" and "d \<le> d'"
  shows "t \<le> t'"
proof -
  from assms(1-3) have "agrees f s s'"
    by (simp add: chronological_def list_all_iff)
  with assms(4-8) show ?thesis
    by (simp add: agrees_def)
qed

lemma timedelta_days_mono: "a \<le> b \<Longrightarrow> timedelta_days a \<le> timedelta_days b"
  by (simp add: timedelta_days_def zdiv_mono1)

lemma days_since_youngest:
  assumes c: "chronological f bs" and ne: "bs \<noteq> []"
  shows "\<exists>m a. days_since f now bs = Inr a \<and> m \<in> set bs \<and> age_days f now m = Some a
           \<and> (\<forall>s\<in>set bs. \<forall>a'. age_days f now s = Some a' \<longrightarrow> a \<le> a')"
proof -
  have dated: "\<forall>s\<in>set bs. signal_date s \<noteq> None"
    using chronological_dated [OF c] by fastforce
  from most_recent_greatest [OF ne dated]
  obtain m dm where m: "most_recent bs = Inr m" "m \<in> set bs" "signal_date m = Some dm"
    and top: "\<forall>s\<in>set bs. \<forall>d. signal_date s = Some d \<longrightarrow> d \<le> dm"
    by blast
  from chronological_dated [OF c m(2)] m(3) obtain tm where tm: "f dm = Some tm" by auto
  have ds: "days_since f now bs = Inr (timedelta_days (now - tm))"
    by (simp add: days_since_def m tm)
  have age: "age_days f now m = Some (timedelta_days (now - tm))"
    by (simp add: age_days_def m tm)
  have least: "timedelta_days (now - tm) \<le> a'" if s: "s \<in> set bs" and a': "age_days f now s = Some a'" for s a'
  proof -
    from a' obtain d t where d: "signal_date s = Some d" "f d = Some t" "a' = timedelta_days (now - t)"
      by (auto simp: age_days_def split: option.splits)
    from top s d(1) have "d \<le> dm" by blast
    from chronological_mono [OF c s m(2) d(1) m(3) d(2) tm this] have "t \<le> tm" .
    then have "now - tm \<le> now - t" by simp
    from timedelta_days_mono [OF this] d(3) show ?thesis by simp
  qed
  from ds m(2) age least show ?thesis by blast
qed

lemma recent_iff_breach_within:
  assumes c: "chronological f (breach_signals signals)" and ne: "breach_signals signals \<noteq> []"
  shows "\<exists>a. days_since f now (breach_signals signals) = Inr a \<and> (a < n \<longleftrightarrow> breach_within f now n signals)"
proof -
  from days_since_youngest [OF c ne, of now]
  obtain m a where a: "days_since f now (breach_signals signals) = Inr a" "m \<in> set (breach_signals signals)"
    "age_days f now m = Some a"
    "\<forall>s\<in>set (breach_signals signals). \<forall>a'. age_days f now s = Some a' \<longrightarrow> a \<le> a'"
    by blast
  have "a < n \<longleftrightarrow> breach_within f now n signals"
  proof
    assume "a < n"
    with a(2,3) show "breach_within f now n signals"
      by (auto simp: breach_within_def list_ex_iff intro!: bexI [of _ m])
  next
    assume "breach_within f now n signals"
    then obtain s a' where "s \<in> set (breach_signals signals)" "age_days f now s = Some a'" "a' < n"
      by (auto simp: breach_within_def list_ex_iff split: option.splits)
    with a(4) show "a < n" by fastforce
  qed
  with a(1) show ?thesis by blast
qed

section \<open>Score bounds\<close>

lemma dwell_bounds:
  "calculate_dwell_score f now d signals = Inr v \<Longrightarrow> 0 \<le> v \<and> v \<le> 1"
  by (auto simp: calculate_dwell_score_def Let_def get_tech_stack_def split: if_splits sum.splits)

lemma vacancy_step_nonneg: "0 \<le> acc \<Longrightarrow> 0 \<le> vacancy_step acc v"
  by (simp add: vacancy_step_def Let_def)

lemma foldl_vacancy_nonneg: "0 \<le> acc \<Longrightarrow> 0 \<le> foldl vacancy_step acc vs"
  by (induction vs arbitrary: acc) (simp_all add: vacancy_step_nonneg)

lemma skills_gap_bounds:
  "0 \<le> calculate_skills_gap_score d signals \<and> calculate_skills_gap_score d signals \<le> 1"
  by (simp add: calculate_skills_gap_score_def foldl_vacancy_nonneg)

lemma after_hours_bounds:
  "0 \<le> calculate_after_hours_score clay d signals \<and> calculate_after_hours_score clay d signals \<le> 1"
  by (simp add: calculate_after_hours_score_def Let_def)

lemma insurance_bounds:
  "0 \<le> calculate_insurance_score clay d signals \<and> calculate_insurance_score clay d signals \<le> 1"
  by (simp add: calculate_insurance_score_def Let_def)

lemma multiplier_positive: "map_of industry_multipliers i = Some m \<Longrightarrow> 0 < m"
  by (auto simp: industry_multipliers_def split: if_splits)

lemma breach_cost_bounds:
  "0 \<le> calculate_breach_cost_score clay d signals \<and> calculate_breach_cost_score clay d signals \<le> 1"
  by (auto simp: calculate_breach_cost_score_def Let_def split: option.splits dest!: multiplier_positive)

lemma weighted_total_bounds:
  assumes "0 \<le> dwell_time s" "dwell_time s \<le> 1" "0 \<le> skills_gap s" "skills_gap s \<le> 1"
    "0 \<le> after_hours s" "after_hours s \<le> 1" "0 \<le> insurance s" "insurance s \<le> 1"
    "0 \<le> breach_cost s" "breach_cost s \<le> 1"
  shows "0 \<le> weighted_total s \<and> weighted_total s \<le> 1"
  using assms by (simp add: weighted_total_def weights_def)

text \<open>What a returned score record is made of.\<close>

lemma calculate_company_score_Inr:
  assumes "calculate_company_score clay f now d = Inr r"
  shows "\<exists>dwell seg. calculate_dwell_score f now d (pain_signals clay d) = Inr dwell
    \<and> individual_scores r =
        \<lparr>dwell_time = dwell,
         skills_gap = calculate_skills_gap_score d (pain_signals clay d),
         after_hours = calculate_after_hours_score clay d (pain_signals clay d),
         insurance = calculate_insurance_score clay d (pain_signals clay d),
         breach_cost = calculate_breach_cost_score clay d (pain_signals clay d)\<rparr>
    \<and> assign_segment clay f now (pain_signals clay d) (individual_scores r) = Inr seg
    \<and> segment r = seg \<and> sd_domain r = d
    \<and> pain_score r = weighted_total (individual_scores r) * 100
    \<and> primary_edp r = primary_of (individual_scores r)"
  using assms
  by (auto simp: calculate_company_score_def Let_def split: sum.splits)

text \<open>
  C4: whenever the scorer returns a score record, each of its five sub-scores lies in
  [0,1], the pain score is 100 times the weighted sum of the sub-scores with the weights
  0.35, 0.25, 0.15, 0.15 and 0.10, which sum to 1, and the pain score lies in [0,100].
\<close>

theorem score_bounds:
  assumes "calculate_company_score clay f now d = Inr r"
  shows "0 \<le> dwell_time (individual_scores r) \<and> dwell_time (individual_scores r) \<le> 1
    \<and> 0 \<le> skills_gap (individual_scores r) \<and> skills_gap (individual_scores r) \<le> 1
    \<and> 0 \<le> after_hours (individual_scores r) \<and> after_hours (individual_scores r) \<le> 1
    \<and> 0 \<le> insurance (individual_scores r) \<and> insurance (individual_scores r) \<le> 1
    \<and> 0 \<le> breach_cost (individual_scores r) \<and> breach_cost (individual_scores r) \<le> 1
    \<and> pain_score r = 100 * (dwell_time (individual_scores r) * (35/100)
                             + skills_gap (individual_scores r) * (25/100)
                             + after_hours (individual_scores r) * (15/100)
                             + insurance (individual_scores r) * (15/100)
                             + breach_cost (individual_scores r) * (10/100))
    \<and> 0 \<le> pain_score r \<and> pain_score r \<le> 100
    \<and> weights = \<lparr>dwell_time = 35/100, skills_gap = 25/100, after_hours = 15/100,
                   insurance = 15/100, breach_cost = 10/100\<rparr>
    \<and> dwell_time weights + skills_gap weights + after_hours weights + insurance weights
        + breach_cost weights = 1"
proof -
  from calculate_company_score_Inr [OF assms]
  obtain dwell where dwell: "calculate_dwell_score f now d (pain_signals clay d) = Inr dwell"
    and scs: "individual_scores r =
        \<lparr>dwell_time = dwell,
         skills_gap = calculate_skills_gap_score d (pain_signals clay d),
         after_hours = calculate_after_hours_score clay d (pain_signals clay d),
         insurance = calculate_insurance_score clay d (pain_signals clay d),
         breach_cost = calculate_breach_cost_score clay d (pain_signals clay d)\<rparr>"
    and pain: "pain_score r = weighted_total (individual_scores r) * 100"
    by blast
  have b1: "0 \<le> dwell_time (individual_scores r) \<and> dwell_time (individual_scores r) \<le> 1"
    using dwell_bounds [OF dwell] by (simp add: scs)
  have b2: "0 \<le> skills_gap (individual_scores r) \<and> skills_gap (individual_scores r) \<le> 1"
    using skills_gap_bounds by (simp add: scs)
  have b3: "0 \<le> after_hours (individual_scores r) \<and> after_hours (individual_scores r) \<le> 1"
    using after_hours_bounds by (simp add: scs)
  have b4: "0 \<le> insurance (individual_scores r) \<and> insurance (individual_scores r) \<le> 1"
    using insurance_bounds by (simp add: scs)
  have b5: "0 \<le> breach_cost (individual_scores r) \<and> breach_cost (individual_scores r) \<le> 1"
    using breach_cost_bounds by (simp add: scs)
  have wt: "0 \<le> weighted_total (individual_scores r) \<and> weighted_total (individual_scores r) \<le> 1"
    using weighted_total_bounds b1 b2 b3 b4 b5 by blast
  have p1: "pain_score r = 100 * (dwell_time (individual_scores r) * (35/100)
                             + skills_gap (individual_scores r) * (25/100)
                             + after_hours (individual_scores r) * (15/100)
                             + insurance (individual_scores r) * (15/100)
                             + breach_cost (individual_scores r) * (10/100))"
    by (simp add: pain weighted_total_def weights_def)
  have p2: "0 \<le> pain_score r \<and> pain_score r \<le> 100"
    using wt by (simp add: pain)
  have w: "weights = \<lparr>dwell_time = 35/100, skills_gap = 25/100, after_hours = 15/100,
                   insurance = 15/100, breach_cost = 10/100\<rparr>
    \<and> dwell_time weights + skills_gap weights + after_hours weights + insurance weights
        + breach_cost weights = 1"
    by (simp add: weights_def)
  from b1 b2 b3 b4 b5 p1 p2 w show ?thesis by blast
qed

theorem score_bounds_witness:
  "calculate_company_score (acme_store [recent_breach, long_vacancy, old_breach] [small_retailer])
     iso_clock nov_4 ''acme.com'' = Inr acme_result
   \<and> dwell_time (individual_scores acme_result) = 1
   \<and> skills_gap (individual_scores acme_result) = 6/10
   \<and> pain_score acme_result = 100 * (1 * (35/100) + 6/10 * (25/100) + 5/10 * (15/100)
                                      + 4/10 * (15/100) + 36/100 * (10/100))
   \<and> 0 \<le> pain_score acme_result \<and> pain_score acme_result \<le> 100"
  using score_bounds [OF acme_scored] acme_scored
  by (simp add: acme_result_def)

text \<open>
  The scorer returns a record whenever the breach-type signals of the company are
  chronological; in particular when there is none.
\<close>

lemma calculate_company_score_returns:
  assumes "chronological f (breach_signals (pain_signals clay d))"
  shows "\<exists>r. calculate_company_score clay f now d = Inr r"
proof -
  have days: "breach_signals (pain_signals clay d) \<noteq> [] \<Longrightarrow>
      \<exists>a. days_since f now (breach_signals (pain_signals clay d)) = Inr a"
    using days_since_youngest [OF assms, of now] by blast
  have dwell: "\<exists>v. calculate_dwell_score f now d (pain_signals clay d) = Inr v"
    using days by (auto simp: calculate_dwell_score_def Let_def)
  have seg: "\<exists>seg. assign_segment clay f now (pain_signals clay d) scs = Inr seg" for scs
    using days by (auto simp: assign_segment_def)
  from dwell obtain v where v: "calculate_dwell_score f now d (pain_signals clay d) = Inr v"
    by blast
  let ?scs = "\<lparr>dwell_time = v,
         skills_gap = calculate_skills_gap_score d (pain_signals clay d),
         after_hours = calculate_after_hours_score clay d (pain_signals clay d),
         insurance = calculate_insurance_score clay d (pain_signals clay d),
         breach_cost = calculate_breach_cost_score clay d (pain_signals clay d)\<rparr>"
  from seg [of ?scs] obtain sg where "assign_segment clay f now (pain_signals clay d) ?scs = Inr sg"
    by blast
  with v show ?thesis
    by (simp add: calculate_company_score_def Let_def)
qed

section \<open>The ransomware override\<close>

text \<open>
  C1 at a failing input: the company has an \<open>active_ransomware\<close> signal and a breach
  signal whose date the collector could not parse and stored as \<open>n/a\<close>. The base
  scorer raises ValueError on that date, \<open>_score_single_company\<close> catches it, and the
  company gets no result: neither pain score 100 nor primary EDP \<open>active_ransomware\<close>.
  (Where the base scorer returns, the override is applied: \<open>override_applied\<close>.)
\<close>

theorem ransomware_override_lost:
  "ransomware_signals (pain_signals (acme_store [ransomware_signal, undated_breach] [small_retailer]) ''acme.com'')
     = [ransomware_signal]
   \<and> score_single_company (acme_store [ransomware_signal, undated_breach] [small_retailer])
        iso_clock nov_4 ''acme.com'' = None"
  using scorer_error_gives_none [OF unparsed_date_raises]
  by (simp add: ransomware_signals_def ACTIVE_RANSOMWARE_def example_defs)

section \<open>The segment resolver\<close>

text \<open>
  On chronological breach signals the resolver is the decision list of the
  specification: first match wins, in the order breach within 90 days, skills gap above
  0.7, insurance above 0.7, dwell time above 0.6, fewer than 500 employees.
\<close>

lemma assign_segment_decision_list:
  assumes "chronological f (breach_signals signals)"
  shows "assign_segment clay f now signals scs
    = Inr (resolve (breach_within f now 90 signals) scs
             (case employee_count (get_company_info clay (case signals of [] \<Rightarrow> '''' | s # _ \<Rightarrow> domain s)) of
                None \<Rightarrow> 0 | Some n \<Rightarrow> n))"
proof (cases "breach_signals signals = []")
  case True
  then have "\<not> breach_within f now 90 signals"
    by (simp add: breach_within_def)
  with True show ?thesis
    by (simp add: assign_segment_def resolve_def Let_def)
next
  case False
  from recent_iff_breach_within [OF assms False, of now 90]
  obtain a where "days_since f now (breach_signals signals) = Inr a" "a < 90 \<longleftrightarrow> breach_within f now 90 signals"
    by blast
  with False show ?thesis
    by (simp add: assign_segment_def resolve_def Let_def)
qed

lemma recent_breach_beats_skills_gap:
  assumes "chronological f (breach_signals signals)"
    and "s \<in> set (breach_signals signals)" and "age_days f now s = Some 10"
  shows "assign_segment clay f now signals scs = Inr ''post_breach_survivor''"
proof -
  have "breach_within f now 90 signals"
    using assms(2,3) by (auto simp: breach_within_def list_ex_iff intro!: bexI [of _ s])
  then show ?thesis
    by (simp add: assign_segment_decision_list [OF assms(1)] resolve_def)
qed

lemma recent_breach_beats_skills_gap_example:
  "chronological iso_clock (breach_signals [recent_breach, old_breach])
   \<and> assign_segment (acme_store [] []) iso_clock nov_4 [recent_breach, old_breach]
        (zero_scores\<lparr>skills_gap := 95/100\<rparr>) = Inr ''post_breach_survivor''"
proof -
  have c: "chronological iso_clock (breach_signals [recent_breach, old_breach])"
    by (simp add: chronological_def agrees_def breach_signals_def get_signal_type_def example_defs)
  have m: "recent_breach \<in> set (breach_signals [recent_breach, old_breach])"
    by (simp add: breach_signals_def get_signal_type_def example_defs)
  have a: "age_days iso_clock nov_4 recent_breach = Some 10"
    by (simp add: age_days_def timedelta_days_def example_defs)
  from recent_breach_beats_skills_gap [OF c m a] c show ?thesis by simp
qed

text \<open>
  C3 at a failing input: a breach signal ten days old, a second breach signal whose
  date is the string \<open>n/a\<close>, and skills-gap sub-score 0.95. \<open>n/a\<close> is the greatest
  date string, so it is the one parsed; the resolver raises ValueError and gives no
  segment, where the decision list gives \<open>post_breach_survivor\<close>. The scorer as a whole
  raises on the same signals.
\<close>

theorem segment_raises_on_unparsed_date:
  "age_days iso_clock nov_4 recent_breach = Some 10
   \<and> breach_signals [recent_breach, undated_breach] = [recent_breach, undated_breach]
   \<and> assign_segment (acme_store [] []) iso_clock nov_4 [recent_breach, undated_breach]
        (zero_scores\<lparr>skills_gap := 95/100\<rparr>) = Inl ValueError
   \<and> calculate_company_score (acme_store [recent_breach, undated_breach] [small_retailer])
        iso_clock nov_4 ''acme.com'' = Inl ValueError"
  by (simp add: scorer_defs example_defs age_days_def)

section \<open>The empty signal set\<close>

text \<open>
  C5, as the code has it: for a company with no signals the scorer returns normally;
  the skills-gap sub-score is 0; the dwell-time sub-score is 0.7, the three penalties for
  absent security tooling, which the placeholder tech stack always reports absent; the
  insurance sub-score is 0.3 for healthcare and finance and 0 otherwise; the after-hours
  sub-score is its base 0.5, plus 0.2 for healthcare, finance and critical
  infrastructure; the breach-cost sub-score is the employee-count tier of the company
  record (100 employees when the count is missing) times the industry multiplier,
  capped at 1; the pain score is the weighted formula over these.
\<close>

theorem empty_signal_set_scores:
  assumes "pain_signals clay d = []"
  shows "\<exists>r. calculate_company_score clay f now d = Inr r
    \<and> dwell_time (individual_scores r) = 7/10
    \<and> skills_gap (individual_scores r) = 0
    \<and> after_hours (individual_scores r)
        = (if industry (get_company_info clay d)
                \<in> {Some ''healthcare'', Some ''finance'', Some ''critical_infrastructure''}
           then 7/10 else 5/10)
    \<and> insurance (individual_scores r)
        = (if industry (get_company_info clay d) \<in> {Some ''healthcare'', Some ''finance''}
           then 3/10 else 0)
    \<and> breach_cost (individual_scores r)
        = min ((let employees = (case employee_count (get_company_info clay d) of
                                   None \<Rightarrow> 100 | Some n \<Rightarrow> n)
                in if employees > 5000 then 8/10 else if employees > 1000 then 6/10
                   else if employees > 500 then 4/10 else 3/10)
               * (case map_of industry_multipliers
                        (case industry (get_company_info clay d) of None \<Rightarrow> '''' | Some i \<Rightarrow> i) of
                    None \<Rightarrow> 1 | Some m \<Rightarrow> m)) 1
    \<and> pain_score r = 100 * (dwell_time (individual_scores r) * (35/100)
                             + skills_gap (individual_scores r) * (25/100)
                             + after_hours (individual_scores r) * (15/100)
                             + insurance (individual_scores r) * (15/100)
                             + breach_cost (individual_scores r) * (10/100))"
proof -
  have dwell: "calculate_dwell_score f now d [] = Inr (7/10)"
    by (simp add: calculate_dwell_score_def breach_signals_def vacancy_signals_def get_tech_stack_def)
  have seg: "\<exists>seg. assign_segment clay f now [] scs = Inr seg" for scs
    by (simp add: assign_segment_def breach_signals_def)
  have skills: "calculate_skills_gap_score d [] = 0"
    by (simp add: calculate_skills_gap_score_def vacancy_signals_def)
  have ah: "calculate_after_hours_score clay d []
        = (if industry (get_company_info clay d)
                \<in> {Some ''healthcare'', Some ''finance'', Some ''critical_infrastructure''}
           then 7/10 else 5/10)"
    by (simp add: calculate_after_hours_score_def get_tech_stack_def Let_def)
  have ins: "calculate_insurance_score clay d []
        = (if industry (get_company_info clay d) \<in> {Some ''healthcare'', Some ''finance''}
           then 3/10 else 0)"
    by (simp add: calculate_insurance_score_def breach_signals_def compliance_signals_def Let_def)
  have bc: "calculate_breach_cost_score clay d []
        = min ((let employees = (case employee_count (get_company_info clay d) of
                                   None \<Rightarrow> 100 | Some n \<Rightarrow> n)
                in if employees > 5000 then 8/10 else if employees > 1000 then 6/10
                   else if employees > 500 then 4/10 else 3/10)
               * (case map_of industry_multipliers
                        (case industry (get_company_info clay d) of None \<Rightarrow> '''' | Some i \<Rightarrow> i) of
                    None \<Rightarrow> 1 | Some m \<Rightarrow> m)) 1"
    by (simp add: calculate_breach_cost_score_def Let_def)
  let ?scs = "\<lparr>dwell_time = 7/10, skills_gap = calculate_skills_gap_score d [],
                after_hours = calculate_after_hours_score clay d [],
                insurance = calculate_insurance_score clay d [],
                breach_cost = calculate_breach_cost_score clay d []\<rparr>"
  from seg [of ?scs] obtain sg where sg: "assign_segment clay f now [] ?scs = Inr sg" by blast
  have r: "calculate_company_score clay f now d
      = Inr \<lparr>sd_domain = d, pain_score = weighted_total ?scs * 100, individual_scores = ?scs,
             primary_edp = primary_of ?scs, segment = sg,
             recommendation = get_recommendation (weighted_total ?scs * 100) sg\<rparr>"
    by (simp add: calculate_company_score_def assms dwell sg Let_def)
  show ?thesis
    unfolding r
    by (rule exI, intro conjI, rule refl)
       (simp_all add: skills ah ins bc weighted_total_def weights_def)
qed

theorem empty_signal_set_scores_witness:
  "pain_signals (acme_store [] [hospital]) ''acme.com'' = []
   \<and> (\<exists>r. calculate_company_score (acme_store [] [hospital]) iso_clock nov_4 ''acme.com'' = Inr r
          \<and> individual_scores r = \<lparr>dwell_time = 7/10, skills_gap = 0, after_hours = 7/10,
                                     insurance = 3/10, breach_cost = 45/100\<rparr>
          \<and> pain_score r = 44)"
  using empty_signal_set_scores [of "acme_store [] [hospital]" "''acme.com''" iso_clock nov_4]
  by (simp add: scorer_defs example_defs)

text \<open>
  C5 as stated fails: with no signals the dwell-time sub-score is 0.7, not 0, and for a
  healthcare company the insurance sub-score is 0.3, not 0.
\<close>

theorem empty_signal_set_counterexample:
  "calculate_company_score (acme_store [] [hospital]) iso_clock nov_4 ''acme.com''
   = Inr \<lparr>sd_domain = ''acme.com'', pain_score = 44,
          individual_scores = \<lparr>dwell_time = 7/10, skills_gap = 0, after_hours = 7/10,
                                insurance = 3/10, breach_cost = 45/100\<rparr>,
          primary_edp = ''dwell_time'', segment = ''resource_constrained'',
          recommendation = ''not_qualified''\<rparr>
   \<and> calculate_dwell_score iso_clock nov_4 ''acme.com'' [] \<noteq> Inr 0
   \<and> calculate_insurance_score (acme_store [] [hospital]) ''acme.com'' [] \<noteq> 0"
  by (simp add: scorer_defs example_defs)

section \<open>Ransomware and the segment\<close>

lemma ransomware_not_breach_type: "\<not> str_contains ''breach'' ACTIVE_RANSOMWARE"
  by (simp add: ACTIVE_RANSOMWARE_def)

lemma ransomware_only_no_breach_signals:
  "list_all (\<lambda>s. signal_type s = Some ACTIVE_RANSOMWARE) signals \<Longrightarrow> breach_signals signals = []"
  by (induction signals)
     (simp_all add: breach_signals_def get_signal_type_def ransomware_not_breach_type)

text \<open>
  Where some signal has signal type exactly \<open>active_ransomware\<close>, the override
  dictionary carries the segment \<open>post_breach_survivor\<close>, and a record that the base
  scorer returned leaves \<open>_score_single_company\<close> with that segment and pain score
  100; every prospect of \<open>check_urgent_signals\<close> carries the segment too. The
  resolver's own rule 1 does not give it: \<open>breach\<close> is not a substring of
  \<open>active_ransomware\<close>, and on signals that are all of that type the resolver never
  answers \<open>post_breach_survivor\<close>.
\<close>

lemma override_carries_segment:
  assumes "ransomware_signals signals \<noteq> []"
  shows "(\<exists>ov. process_ransomware_signals d signals = Some ov
            \<and> ov_segment ov = ''post_breach_survivor''
            \<and> segment (update_score sd ov) = ''post_breach_survivor'')
    \<and> (pain_signals clay d = signals \<and> calculate_company_score clay f now d = Inr sd
        \<longrightarrow> (\<exists>r. score_single_company clay f now d = Some r
                 \<and> segment r = ''post_breach_survivor'' \<and> pain_score r = 100))
    \<and> map up_segment (urgent_prospects urgent) = replicate (length urgent) ''post_breach_survivor''
    \<and> \<not> str_contains ''breach'' ACTIVE_RANSOMWARE
    \<and> (list_all (\<lambda>s. signal_type s = Some ACTIVE_RANSOMWARE) signals
        \<longrightarrow> (\<exists>seg. assign_segment clay f now signals scs = Inr seg \<and> seg \<noteq> ''post_breach_survivor''))"
proof -
  have a: "\<exists>ov. process_ransomware_signals d signals = Some ov
            \<and> ov_segment ov = ''post_breach_survivor''
            \<and> segment (update_score sd ov) = ''post_breach_survivor''"
    using assms by (simp add: process_ransomware_signals_def update_score_def)
  have b: "\<exists>r. score_single_company clay f now d = Some r
                 \<and> segment r = ''post_breach_survivor'' \<and> pain_score r = 100"
    if "pain_signals clay d = signals" "calculate_company_score clay f now d = Inr sd"
    using override_applied [OF that(2)] that(1) assms by simp
  have c: "map up_segment (urgent_prospects urgent) = replicate (length urgent) ''post_breach_survivor''"
    by (induction urgent) (simp_all add: urgent_prospects_def)
  have e: "\<exists>seg. assign_segment clay f now signals scs = Inr seg \<and> seg \<noteq> ''post_breach_survivor''"
    if "list_all (\<lambda>s. signal_type s = Some ACTIVE_RANSOMWARE) signals"
    using ransomware_only_no_breach_signals [OF that]
    by (simp add: assign_segment_def Let_def)
  from a b c e ransomware_not_breach_type show ?thesis by blast
qed

lemma override_carries_segment_example:
  "ransomware_signals [ransomware_signal] \<noteq> []
   \<and> score_single_company (acme_store [ransomware_signal] [small_retailer]) iso_clock nov_4 ''acme.com''
       = Some \<lparr>sd_domain = ''acme.com'', pain_score = 100,
               individual_scores = \<lparr>dwell_time = 7 / 10, skills_gap = 0, after_hours = 1 / 2,
                                     insurance = 0, breach_cost = 9 / 25\<rparr>,
               primary_edp = ''active_ransomware'', segment = ''post_breach_survivor'',
               recommendation = ''not_qualified''\<rparr>
   \<and> assign_segment (acme_store [ransomware_signal] [small_retailer]) iso_clock nov_4 [ransomware_signal]
        \<lparr>dwell_time = 7 / 10, skills_gap = 0, after_hours = 1 / 2, insurance = 0, breach_cost = 9 / 25\<rparr>
       = Inr ''resource_constrained''"
proof -
  have fires: "ransomware_signals [ransomware_signal] \<noteq> []"
    by (simp add: ransomware_signals_def ACTIVE_RANSOMWARE_def ransomware_signal_def)
  have sigs: "pain_signals (acme_store [ransomware_signal] [small_retailer]) ''acme.com'' = [ransomware_signal]"
    by (simp add: acme_store_def)
  have full: "score_single_company (acme_store [ransomware_signal] [small_retailer]) iso_clock nov_4 ''acme.com''
       = Some \<lparr>sd_domain = ''acme.com'', pain_score = 100,
               individual_scores = \<lparr>dwell_time = 7 / 10, skills_gap = 0, after_hours = 1 / 2,
                                     insurance = 0, breach_cost = 9 / 25\<rparr>,
               primary_edp = ''active_ransomware'', segment = ''post_breach_survivor'',
               recommendation = ''not_qualified''\<rparr>"
    using override_applied [OF ransomware_only_scored] fires sigs
    by (simp add: ACTIVE_RANSOMWARE_def)
  have seg: "assign_segment (acme_store [ransomware_signal] [small_retailer]) iso_clock nov_4 [ransomware_signal]
        \<lparr>dwell_time = 7 / 10, skills_gap = 0, after_hours = 1 / 2, insurance = 0, breach_cost = 9 / 25\<rparr>
       = Inr ''resource_constrained''"
    by (simp add: scorer_defs example_defs)
  from fires full seg show ?thesis by simp
qed

text \<open>
  C9 at a failing input: the company has an \<open>active_ransomware\<close> signal, so the
  condition of the override holds and \<open>_process_ransomware_signals\<close> on its signals
  gives the override with segment \<open>post_breach_survivor\<close>; it also has a breach signal
  whose stored date is \<open>n/a\<close>. The base scorer raises on that date before the override
  is looked at, \<open>_score_single_company\<close> returns nothing, and the company gets no
  segment. \<open>check_urgent_signals\<close>, which does not score, sets the segment for the
  same signal.
\<close>

theorem ransomware_segment_lost:
  "process_ransomware_signals ''acme.com''
       (pain_signals (acme_store [ransomware_signal, undated_breach] [small_retailer]) ''acme.com'')
     = Some \<lparr>ov_pain_score = 100, ov_primary_edp = ''active_ransomware'',
             ov_segment = ''post_breach_survivor'', ov_domain = ''acme.com''\<rparr>
   \<and> map_option segment
        (score_single_company (acme_store [ransomware_signal, undated_breach] [small_retailer])
           iso_clock nov_4 ''acme.com'') = None
   \<and> map up_segment (urgent_prospects [ransomware_signal]) = [''post_breach_survivor'']"
  using scorer_error_gives_none [OF unparsed_date_raises]
  by (simp add: process_ransomware_signals_def ransomware_signals_def ACTIVE_RANSOMWARE_def
      urgent_prospects_def example_defs)

section \<open>Missing company metadata\<close>

text \<open>
  C10: when the lookup in \<open>company_universe\<close> returns no record, the breach-cost
  sub-score takes 100 employees and multiplier 1 and is exactly 0.3; the segment
  resolver, whose lookup is by the domain of the first signal (the empty string when
  there is no signal), takes 0 employees when that lookup returns no record: it never
  answers \<open>general_prospect\<close>, and when rules 1 to 4 fail (no breach-type signal, or
  the most recent one 90 days old or older; no sub-score above its threshold) it
  answers \<open>overwhelmed_generalist\<close>.
\<close>

theorem missing_company_defaults:
  "(company_universe clay d = [] \<longrightarrow> calculate_breach_cost_score clay d signals = 3/10)
   \<and> (company_universe clay (case signals of [] \<Rightarrow> '''' | s # _ \<Rightarrow> domain s) = [] \<longrightarrow>
        assign_segment clay f now signals scs \<noteq> Inr ''general_prospect''
        \<and> ((breach_signals signals = []
             \<or> (\<exists>days. days_since f now (breach_signals signals) = Inr days \<and> 90 \<le> days))
            \<and> skills_gap scs \<le> 7/10 \<and> insurance scs \<le> 7/10 \<and> dwell_time scs \<le> 6/10
            \<longrightarrow> assign_segment clay f now signals scs = Inr ''overwhelmed_generalist''))"
proof (intro conjI impI)
  assume "company_universe clay d = []"
  then show "calculate_breach_cost_score clay d signals = 3/10"
    by (simp add: calculate_breach_cost_score_def get_company_info_def industry_multipliers_def)
next
  assume "company_universe clay (case signals of [] \<Rightarrow> '''' | s # _ \<Rightarrow> domain s) = []"
  then show "assign_segment clay f now signals scs \<noteq> Inr ''general_prospect''"
    by (auto simp: assign_segment_def get_company_info_def Let_def split: sum.splits)
next
  assume none: "company_universe clay (case signals of [] \<Rightarrow> '''' | s # _ \<Rightarrow> domain s) = []"
    and fails: "(breach_signals signals = []
             \<or> (\<exists>days. days_since f now (breach_signals signals) = Inr days \<and> 90 \<le> days))
            \<and> skills_gap scs \<le> 7/10 \<and> insurance scs \<le> 7/10 \<and> dwell_time scs \<le> 6/10"
  then show "assign_segment clay f now signals scs = Inr ''overwhelmed_generalist''"
    by (auto simp: assign_segment_def get_company_info_def Let_def)
qed

theorem missing_company_defaults_witness:
  "company_universe (acme_store [old_breach] []) ''acme.com'' = []
   \<and> calculate_breach_cost_score (acme_store [old_breach] []) ''acme.com'' [old_breach] = 3/10
   \<and> days_since iso_clock nov_4 (breach_signals [old_breach]) = Inr 110
   \<and> assign_segment (acme_store [old_breach] []) iso_clock nov_4 [old_breach] zero_scores
       = Inr ''overwhelmed_generalist''
   \<and> assign_segment (acme_store [] []) iso_clock nov_4 [] zero_scores = Inr ''overwhelmed_generalist''"
  using missing_company_defaults [of "acme_store [old_breach] []" "''acme.com''" "[old_breach]"
      iso_clock nov_4 zero_scores]
    missing_company_defaults [of "acme_store [] []" "''acme.com''" "[]" iso_clock nov_4 zero_scores]
  by (simp add: scorer_defs example_defs)


end
